theory Spec2Isabelle
  imports Main "HOL-Library.AList"
begin

section \<open>Data model\<close>

text \<open>
  The signaling-session client of \<^verbatim>\<open>src/src/proto.ts\<close>: the interfaces
  \<^verbatim>\<open>TrackInfo\<close>, \<^verbatim>\<open>MediaStreamInfo\<close> and \<^verbatim>\<open>Notification\<close>
  (lines 1-22) and the class \<^verbatim>\<open>Client\<close> (lines 42-267).

  An optional field \<^verbatim>\<open>f?: string\<close> is a \<open>string option\<close>. The code tests
  such fields with \<^verbatim>\<open>if (f)\<close>, which JavaScript takes as false for
  \<^verbatim>\<open>undefined\<close> and for the empty string alike.
\<close>

definition truthy :: "string option \<Rightarrow> bool" where
  "truthy v = (case v of None \<Rightarrow> False | Some s \<Rightarrow> s \<noteq> [])"

record TrackInfo =
  id' :: "string option"
  ssrc :: "int option"
  pt :: "int option"
  type' :: string
  codec :: "string option"
  fmtp :: "string option"

text \<open>
  The interface declares the values of \<^verbatim>\<open>tracks\<close> as \<^verbatim>\<open>TrackInfo\<close> and the
  values of a registry entry as \<^verbatim>\<open>TrackInfo[]\<close>; \<^verbatim>\<open>objToStrMap\<close> takes
  \<^verbatim>\<open>any\<close>, so at run time a value is whichever of the two the server sent.
\<close>

datatype track_value = TrackObj TrackInfo | TrackArr "TrackInfo list"

text \<open>
  A JavaScript object with string keys is the list of its entries in the order of
  \<^verbatim>\<open>Object.keys\<close>; a \<^verbatim>\<open>Map\<close> is the list of its entries in insertion order,
  with \<^verbatim>\<open>set\<close> as \<^const>\<open>AList.update\<close> (replace in place, or append),
  \<^verbatim>\<open>get\<close> as \<^const>\<open>map_of\<close>, \<^verbatim>\<open>delete\<close> as \<^const>\<open>AList.delete\<close>. An object
  holds the properties assigned to it; the ones it inherits from its prototype are
  left out.
\<close>

type_synonym tracks_obj = "(string \<times> track_value) list"
type_synonym track_map = "(string \<times> track_value) list"

record MediaStreamInfo =
  msi_rid :: string
  msi_mid :: "string option"
  msi_uid :: string
  msi_info :: "string option"
  msi_tracks :: "tracks_obj option"
  msi_description :: "string option"

record Notification =
  method' :: string
  data :: MediaStreamInfo

text \<open>
  Errors: \<open>Error m\<close> is \<^verbatim>\<open>new Error(m)\<close> thrown by the client, \<open>TypeError m\<close> is
  raised by the runtime, and \<open>Thrown x\<close> is a value that a collaborator (the signaling
  peer, the media transport, a stream handle) throws or rejects with.
\<close>

datatype error = Error string | TypeError string | Thrown string

text \<open>
  Modelled from the spec: the state that \<^verbatim>\<open>getIceConnectionState()\<close> of a handle
  reports. Its class is not under \<^verbatim>\<open>src/\<close>; the spec calls it the ICE connection
  state of the handle, which is one of the seven strings of the platform's
  \<^verbatim>\<open>RTCIceConnectionState\<close>, or missing when the handle has no transport.
\<close>

datatype RTCIceConnectionState =
  IceNew | IceChecking | IceConnected | IceCompleted | IceDisconnected | IceFailed | IceClosed

fun state_string :: "RTCIceConnectionState \<Rightarrow> string" where
  "state_string IceNew = ''new''"
| "state_string IceChecking = ''checking''"
| "state_string IceConnected = ''connected''"
| "state_string IceCompleted = ''completed''"
| "state_string IceDisconnected = ''disconnected''"
| "state_string IceFailed = ''failed''"
| "state_string IceClosed = ''closed''"

text \<open>
  Modelled from the spec: the stream handle (\<^verbatim>\<open>Stream\<close>, \<^verbatim>\<open>LocalStream\<close> and
  \<^verbatim>\<open>RemoteStream\<close> of \<^verbatim>\<open>./stream\<close>, not under \<^verbatim>\<open>src/\<close>). The client reads its
  \<^verbatim>\<open>mid\<close>, polls \<^verbatim>\<open>getIceConnectionState()\<close> and calls \<^verbatim>\<open>close()\<close>. A value of
  this record is the object at one moment: \<open>sid\<close> is its identity,
  \<open>iceConnectionState\<close> the state of its transport, and \<open>closeThrows\<close> is the
  exception that a call of \<^verbatim>\<open>close()\<close> throws, if it throws. \<^verbatim>\<open>Client.close\<close>
  expects that it may: its \<^verbatim>\<open>catch\<close> logs \<^verbatim>\<open>close error\<close>.
\<close>

record Stream =
  sid :: nat
  mid :: "string option"
  iceConnectionState :: "RTCIceConnectionState option"
  closeThrows :: "error option"

definition getIceConnectionState :: "Stream \<Rightarrow> string option" where
  "getIceConnectionState s = map_option state_string (iceConnectionState s)"

text \<open>
  What the client does to the outside, in the order it does it: the events it emits
  with \<^verbatim>\<open>this.emit\<close> (listeners are taken to return normally), the requests it sends
  with \<^verbatim>\<open>dispatch.request\<close>, the calls of \<^verbatim>\<open>close()\<close>, \<^verbatim>\<open>publish\<close> and
  \<^verbatim>\<open>unpublish\<close> on a handle, of \<^verbatim>\<open>RemoteStream.getRemoteMedia\<close>, of
  \<^verbatim>\<open>removeAllListeners\<close> and of \<^verbatim>\<open>dispatch.close\<close>. Logging is left out.
\<close>

datatype event =
    PeerJoin string "string option"
  | PeerLeave string
  | StreamAdd "string option" string "string option" "string option"
  | StreamRemove "Stream option" string
  | Broadcast string "string option"

type_synonym payload = "(string \<times> string option) list"

datatype effect =
    Request string payload
  | Emit event
  | Close Stream
  | GetRemoteMedia string string track_map "string option"
  | StreamPublish Stream string "string option"
  | StreamUnpublish Stream
  | RemoveAllListeners
  | DispatchClose

text \<open>
  The fields of \<^verbatim>\<open>Client\<close> (lines 43-49), the listeners it inherits from
  \<^verbatim>\<open>EventEmitter\<close> (event name and listener), and whether its signaling peer
  \<^verbatim>\<open>dispatch\<close> has been closed.
\<close>

record Client =
  uid :: string
  rid :: "string option"
  localStreams :: "Stream list"
  streams :: "(string \<times> Stream) list"
  knownStreams :: "(string \<times> track_map) list"
  roomToken :: "string option"
  listeners :: "(string \<times> nat) list"
  dispatch_closed :: bool

type_synonym 'a outcome = "(error + 'a) \<times> Client \<times> effect list"

definition new_Client :: "string \<Rightarrow> Client" where
  "new_Client u =
     \<lparr>uid = u, rid = None, localStreams = [], streams = [], knownStreams = [],
      roomToken = None, listeners = [], dispatch_closed = False\<rparr>"

section \<open>Operations\<close>

subsection \<open>objToStrMap (lines 269-275)\<close>

text \<open>
  \<^verbatim>\<open>Object.keys(undefined)\<close> raises a TypeError; otherwise the loop of lines
  271-273 \<^verbatim>\<open>set\<close>s every entry \<^verbatim>\<open>(k, obj[k])\<close> of the object into a fresh
  \<^verbatim>\<open>Map\<close>, the value as it is.
\<close>

definition strMap_loop :: "tracks_obj \<Rightarrow> track_map \<Rightarrow> track_map" where
  "strMap_loop kvs strMap = fold (\<lambda>(k, v) strMap. AList.update k v strMap) kvs strMap"

definition objToStrMap :: "tracks_obj option \<Rightarrow> error + track_map" where
  "objToStrMap obj =
     (case obj of
        None \<Rightarrow> Inl (TypeError ''Cannot convert undefined or null to object'')
      | Some kvs \<Rightarrow> Inr (strMap_loop kvs []))"

subsection \<open>join (lines 109-138)\<close>

definition token_field :: "string option \<Rightarrow> payload" where
  "token_field t = (if truthy t then [(''token'', t)] else [])"

text \<open>The body of \<^verbatim>\<open>pubs.forEach\<close> for one descriptor (lines 125-130).\<close>

definition add_pub :: "MediaStreamInfo \<Rightarrow> Client \<Rightarrow> error + (Client \<times> effect list)" where
  "add_pub pub c =
     (case msi_mid pub of
        None \<Rightarrow> Inr (c, [])
      | Some m \<Rightarrow>
          if m = [] then Inr (c, [])
          else (case objToStrMap (msi_tracks pub) of
                  Inl e \<Rightarrow> Inl e
                | Inr trackMap \<Rightarrow>
                    Inr (c\<lparr>knownStreams := AList.update m trackMap (knownStreams c)\<rparr>,
                         [Emit (StreamAdd (Some m) (msi_uid pub) (msi_info pub)
                                  (msi_description pub))])))"

text \<open>\<^verbatim>\<open>pubs.forEach\<close>: an exception leaves the loop, what was done stays done.\<close>

fun pubs_forEach :: "MediaStreamInfo list \<Rightarrow> Client \<Rightarrow> effect list \<Rightarrow> unit outcome" where
  "pubs_forEach [] c es = (Inr (), c, es)"
| "pubs_forEach (pub # pubs) c es =
     (case add_pub pub c of
        Inl e \<Rightarrow> (Inl e, c, es)
      | Inr (c', es') \<Rightarrow> pubs_forEach pubs c' (es @ es'))"

record JoinData =
  pubs :: "MediaStreamInfo list option"

text \<open>
  \<^verbatim>\<open>join\<close> runs in two parts, split at its \<^verbatim>\<open>await\<close>: \<open>join_call\<close> up to the
  request (lines 110-120), \<open>join_settle\<close> from the moment the request's promise is
  settled, with the error it rejected with or the data it resolved to (lines 121-137).
  The \<^verbatim>\<open>catch\<close> rethrows whatever the \<^verbatim>\<open>try\<close> block raised.
\<close>

definition join_call :: "Client \<Rightarrow> string \<Rightarrow> string \<Rightarrow> string option \<Rightarrow> Client \<times> effect list" where
  "join_call c r info token =
     (let c1 = c\<lparr>rid := Some r\<rparr>;
          c2 = (if truthy token then c1\<lparr>roomToken := token\<rparr> else c1)
      in (c2, [Request ''join''
                 ([(''rid'', rid c2), (''uid'', Some (uid c2)), (''info'', Some info)]
                  @ token_field token)]))"

definition join_settle :: "Client \<Rightarrow> error + JoinData \<Rightarrow> unit outcome" where
  "join_settle c resp =
     (case resp of
        Inl e \<Rightarrow> (Inl e, c, [])
      | Inr d \<Rightarrow>
          (case pubs d of
             None \<Rightarrow> (Inr (), c, [])
           | Some ps \<Rightarrow> pubs_forEach ps c []))"

text \<open>A call of \<^verbatim>\<open>join\<close> that nothing else interleaves with.\<close>

definition join :: "Client \<Rightarrow> string \<Rightarrow> string \<Rightarrow> string option \<Rightarrow> error + JoinData \<Rightarrow> unit outcome" where
  "join c r info token resp =
     (case join_call c r info token of
        (c1, es1) \<Rightarrow> (case join_settle c1 resp of (res, c2, es2) \<Rightarrow> (res, c2, es1 @ es2)))"

subsection \<open>publish, unpublish, broadcast (lines 100-107, 140-154)\<close>




subsection \<open>subscribe (lines 156-167)\<close>




subsection \<open>close and leave (lines 169-203)\<close>

text \<open>
  \<^verbatim>\<open>Promise.all(handles.map(async h => { if (h.mid) h.close(); }))\<close>: \<^verbatim>\<open>map\<close> runs
  every callback to its end, so \<^verbatim>\<open>close()\<close> is called on every handle with a
  truthy \<^verbatim>\<open>mid\<close>; the promise rejects with the first exception, if there is one.
\<close>

fun first_failure :: "Stream list \<Rightarrow> error option" where
  "first_failure [] = None"
| "first_failure (s # ss) =
     (case closeThrows s of Some e \<Rightarrow> Some e | None \<Rightarrow> first_failure ss)"

definition close_all :: "Stream list \<Rightarrow> error option \<times> effect list" where
  "close_all handles =
     (let hs = filter (\<lambda>h. truthy (mid h)) handles in (first_failure hs, map Close hs))"

text \<open>
  \<^verbatim>\<open>Object.values\<close> of the subscribed-stream map, in insertion order (the order of a
  JavaScript object whose keys are not array indices).
\<close>

definition Object_values :: "(string \<times> 'a) list \<Rightarrow> 'a list" where
  "Object_values obj = map snd obj"

text \<open>
  The three synchronous parts of \<^verbatim>\<open>close\<close>: lines 185-189, lines 190-194 and
  lines 198-202. One \<^verbatim>\<open>try\<close> holds both awaits, so the second part is not run
  when the first promise rejects.
\<close>

definition close_locals :: "Client \<Rightarrow> error option \<times> effect list" where
  "close_locals c = close_all (localStreams c)"

definition close_remotes :: "Client \<Rightarrow> error option \<times> effect list" where
  "close_remotes c = close_all (Object_values (streams c))"

definition close_finish :: "Client \<Rightarrow> Client \<times> effect list" where
  "close_finish c =
     (c\<lparr>localStreams := [], streams := [], knownStreams := [], listeners := [],
        dispatch_closed := True\<rparr>,
      [RemoveAllListeners, DispatchClose])"

text \<open>A call of \<^verbatim>\<open>close\<close> that nothing else interleaves with.\<close>

definition close :: "Client \<Rightarrow> Client \<times> effect list" where
  "close c =
     (case close_locals c of
        (r1, es1) \<Rightarrow>
          (case (case r1 of None \<Rightarrow> close_remotes c | Some e \<Rightarrow> (Some e, [])) of
             (r2, es2) \<Rightarrow>
               (case close_finish c of (c', es3) \<Rightarrow> (c', es1 @ es2 @ es3))))"


subsection \<open>isStreamIceConnected and streamsConnected (lines 205-223)\<close>

definition failedStatuses :: "string list" where
  "failedStatuses = [''closed'', ''disconnected'', ''failed'']"

fun ice_forEach :: "Stream list \<Rightarrow> bool \<Rightarrow> bool" where
  "ice_forEach [] connected = connected"
| "ice_forEach (stream # ss) connected =
     ice_forEach ss
       (case getIceConnectionState stream of
          None \<Rightarrow> False
        | Some state \<Rightarrow>
            if state = [] then False else connected \<and> state \<notin> set failedStatuses)"

definition isStreamIceConnected :: "Client \<Rightarrow> bool \<Rightarrow> bool" where
  "isStreamIceConnected c local =
     ice_forEach (if local then localStreams c else Object_values (streams c)) True"

definition streamsConnected :: "Client \<Rightarrow> bool" where
  "streamsConnected c = (isStreamIceConnected c True \<and> isStreamIceConnected c False)"

subsection \<open>onNotification (lines 229-266)\<close>

text \<open>
  \<^verbatim>\<open>this.streams[mid!]\<close>: the non-null assertion is erased, and a property key
  that is \<^verbatim>\<open>undefined\<close> is the string \<^verbatim>\<open>"undefined"\<close>.
\<close>

definition prop_key :: "string option \<Rightarrow> string" where
  "prop_key k = (case k of None \<Rightarrow> ''undefined'' | Some s \<Rightarrow> s)"

definition stream_add :: "Client \<Rightarrow> MediaStreamInfo \<Rightarrow> unit outcome" where
  "stream_add c d =
     (let ev = Emit (StreamAdd (msi_mid d) (msi_uid d) (msi_info d) (msi_description d)) in
      case msi_mid d of
        None \<Rightarrow> (Inr (), c, [ev])
      | Some m \<Rightarrow>
          if m = [] then (Inr (), c, [ev])
          else (case objToStrMap (msi_tracks d) of
                  Inl e \<Rightarrow> (Inl e, c, [])
                | Inr trackMap \<Rightarrow>
                    (Inr (), c\<lparr>knownStreams := AList.update m trackMap (knownStreams c)\<rparr>, [ev])))"

definition stream_remove :: "Client \<Rightarrow> MediaStreamInfo \<Rightarrow> unit outcome" where
  "stream_remove c d =
     (let k = prop_key (msi_mid d) in
      case map_of (streams c) k of
        None \<Rightarrow>
          (Inl (TypeError ''Cannot read properties of undefined (reading close)''), c,
           [Emit (StreamRemove None (msi_uid d))])
      | Some stream \<Rightarrow>
          (case closeThrows stream of
             Some e \<Rightarrow> (Inl e, c, [Emit (StreamRemove (Some stream) (msi_uid d)), Close stream])
           | None \<Rightarrow>
               (Inr (), c\<lparr>streams := AList.delete k (streams c)\<rparr>,
                [Emit (StreamRemove (Some stream) (msi_uid d)), Close stream])))"

definition onNotification :: "Client \<Rightarrow> Notification \<Rightarrow> unit outcome" where
  "onNotification c n =
     (let d = data n in
      if method' n = ''peer-join'' then (Inr (), c, [Emit (PeerJoin (msi_uid d) (msi_info d))])
      else if method' n = ''peer-leave'' then (Inr (), c, [Emit (PeerLeave (msi_uid d))])
      else if method' n = ''stream-add'' then stream_add c d
      else if method' n = ''stream-remove'' then stream_remove c d
      else if method' n = ''broadcast'' then (Inr (), c, [Emit (Broadcast (msi_uid d) (msi_info d))])
      else (Inr (), c, []))"

section \<open>Reachable states\<close>



section \<open>Example values\<close>

text \<open>
  The values of the spec's scenarios: a room \<^verbatim>\<open>r1\<close>, the client \<^verbatim>\<open>u1\<close>, a stream
  \<^verbatim>\<open>m1\<close> of member \<^verbatim>\<open>u2\<close> with one audio track, a published local handle and a
  subscribed remote handle.
\<close>

definition ex_track :: TrackInfo where
  "ex_track = \<lparr>id' = Some ''t1'', ssrc = None, pt = None, type' = ''audio'', codec = None, fmtp = None\<rparr>"

definition ex_info :: MediaStreamInfo where
  "ex_info =
     \<lparr>msi_rid = ''r1'', msi_mid = Some ''m1'', msi_uid = ''u2'', msi_info = None,
      msi_tracks = Some [(''audio'', TrackObj ex_track)], msi_description = None\<rparr>"

definition ex_local :: Stream where
  "ex_local = \<lparr>sid = 1, mid = Some ''l1'', iceConnectionState = Some IceConnected, closeThrows = None\<rparr>"

definition ex_remote :: Stream where
  "ex_remote = \<lparr>sid = 2, mid = Some ''m1'', iceConnectionState = Some IceConnected, closeThrows = None\<rparr>"

definition ex_joined :: Client where
  "ex_joined =
     \<lparr>uid = ''u1'', rid = Some ''r1'', localStreams = [],  streams = [],
      knownStreams = [(''m1'', [(''audio'', TrackObj ex_track)])],
      roomToken = None, listeners = [(''stream-add'', 0)], dispatch_closed = False\<rparr>"

definition ex_subscribed :: Client where
  "ex_subscribed = ex_joined\<lparr>localStreams := [ex_local], streams := [(''m1'', ex_remote)]\<rparr>"

text \<open>A remote handle whose transport is gone already, so that \<^verbatim>\<open>close()\<close> throws.\<close>

definition ex_broken :: Stream where
  "ex_broken =
     \<lparr>sid = 3, mid = Some ''m1'', iceConnectionState = None,
      closeThrows = Some (Thrown ''Stream is not open.'')\<rparr>"

section \<open>join and the registry\<close>





lemma add_pub_skip: "\<not> truthy (msi_mid p) \<Longrightarrow> add_pub p c = Inr (c, [])"
  by (simp add: add_pub_def truthy_def split: option.splits)

lemma add_pub_fault:
  "truthy (msi_mid p) \<Longrightarrow> msi_tracks p = None \<Longrightarrow>
     add_pub p c = Inl (TypeError ''Cannot convert undefined or null to object'')"
  by (simp add: add_pub_def truthy_def objToStrMap_def split: option.splits)

lemma add_pub_set:
  "msi_mid p = Some m \<Longrightarrow> m \<noteq> [] \<Longrightarrow> objToStrMap (msi_tracks p) = Inr tm \<Longrightarrow>
     add_pub p c =
       Inr (c\<lparr>knownStreams := AList.update m tm (knownStreams c)\<rparr>,
            [Emit (StreamAdd (msi_mid p) (msi_uid p) (msi_info p) (msi_description p))])"
  by (simp add: add_pub_def)

lemma objToStrMap_Some: "msi_tracks p \<noteq> None \<Longrightarrow> \<exists>tm. objToStrMap (msi_tracks p) = Inr tm"
  by (auto simp add: objToStrMap_def)

lemma pubs_forEach_append:
  "pubs_forEach ps1 c es = (Inr u, c', es') \<Longrightarrow>
     pubs_forEach (ps1 @ ps2) c es = pubs_forEach ps2 c' es'"
proof (induction ps1 arbitrary: c es)
  case Nil
  then show ?case by simp
next
  case (Cons p ps1)
  show ?case
  proof (cases "add_pub p c")
    case (Inl e)
    with Cons.prems show ?thesis by simp
  next
    case (Inr r)
    obtain c1 es1 where r: "r = (c1, es1)" by (cases r)
    from Cons.prems Inr r have "pubs_forEach ps1 c1 (es @ es1) = (Inr u, c', es')" by simp
    then have "pubs_forEach (ps1 @ ps2) c1 (es @ es1) = pubs_forEach ps2 c' es'"
      by (rule Cons.IH)
    with Inr r show ?thesis by simp
  qed
qed

lemma pubs_forEach_no_fault:
  assumes "\<forall>p\<in>set ps. truthy (msi_mid p) \<longrightarrow> msi_tracks p \<noteq> None"
  shows "\<exists>known'.
           pubs_forEach ps c es =
             (Inr (), c\<lparr>knownStreams := known'\<rparr>,
              es @ map (\<lambda>p. Emit (StreamAdd (msi_mid p) (msi_uid p) (msi_info p) (msi_description p)))
                     (filter (\<lambda>p. truthy (msi_mid p)) ps))
         \<and> (\<forall>m. (\<forall>q\<in>set ps. truthy (msi_mid q) \<longrightarrow> msi_mid q \<noteq> Some m) \<longrightarrow>
                  map_of known' m = map_of (knownStreams c) m)
         \<and> (\<forall>ps1 p ps2 m. ps = ps1 @ p # ps2 \<and> msi_mid p = Some m \<and> m \<noteq> [] \<and>
                  (\<forall>q\<in>set ps2. msi_mid q \<noteq> Some m) \<longrightarrow>
                  (\<exists>tm. objToStrMap (msi_tracks p) = Inr tm \<and> map_of known' m = Some tm))"
  using assms
proof (induction ps arbitrary: c es)
  case Nil
  show ?case by (rule exI [of _ "knownStreams c"]) simp
next
  case (Cons p ps)
  let ?ev = "\<lambda>p. Emit (StreamAdd (msi_mid p) (msi_uid p) (msi_info p) (msi_description p))"
  from Cons.prems have rest: "\<forall>p\<in>set ps. truthy (msi_mid p) \<longrightarrow> msi_tracks p \<noteq> None" by simp
  show ?case
  proof (cases "truthy (msi_mid p)")
    case False
    from Cons.IH [OF rest, of c es] obtain known' where
      run: "pubs_forEach ps c es = (Inr (), c\<lparr>knownStreams := known'\<rparr>, es @ map ?ev (filter (\<lambda>p. truthy (msi_mid p)) ps))"
      and U: "\<forall>m. (\<forall>q\<in>set ps. truthy (msi_mid q) \<longrightarrow> msi_mid q \<noteq> Some m) \<longrightarrow> map_of known' m = map_of (knownStreams c) m"
      and L: "\<forall>ps1 p ps2 m. ps = ps1 @ p # ps2 \<and> msi_mid p = Some m \<and> m \<noteq> [] \<and>
                  (\<forall>q\<in>set ps2. msi_mid q \<noteq> Some m) \<longrightarrow>
                  (\<exists>tm. objToStrMap (msi_tracks p) = Inr tm \<and> map_of known' m = Some tm)"
      by blast
    have 1: "pubs_forEach (p # ps) c es =
             (Inr (), c\<lparr>knownStreams := known'\<rparr>, es @ map ?ev (filter (\<lambda>p. truthy (msi_mid p)) (p # ps)))"
      using False run by (simp add: add_pub_skip)
    have 2: "\<forall>m. (\<forall>q\<in>set (p # ps). truthy (msi_mid q) \<longrightarrow> msi_mid q \<noteq> Some m) \<longrightarrow>
                  map_of known' m = map_of (knownStreams c) m"
      using U by simp
    have 3: "\<forall>ps1 p' ps2 m. p # ps = ps1 @ p' # ps2 \<and> msi_mid p' = Some m \<and> m \<noteq> [] \<and>
                  (\<forall>q\<in>set ps2. msi_mid q \<noteq> Some m) \<longrightarrow>
                  (\<exists>tm. objToStrMap (msi_tracks p') = Inr tm \<and> map_of known' m = Some tm)"
    proof (intro allI impI)
      fix ps1 p' ps2 m
      assume h: "p # ps = ps1 @ p' # ps2 \<and> msi_mid p' = Some m \<and> m \<noteq> [] \<and>
                  (\<forall>q\<in>set ps2. msi_mid q \<noteq> Some m)"
      show "\<exists>tm. objToStrMap (msi_tracks p') = Inr tm \<and> map_of known' m = Some tm"
      proof (cases ps1)
        case Nil
        with h have "p' = p" by simp
        with h False show ?thesis by (simp add: truthy_def)
      next
        case (Cons a ps1')
        with h have "ps = ps1' @ p' # ps2" by simp
        with h L show ?thesis by blast
      qed
    qed
    from 1 2 3 show ?thesis by blast
  next
    case True
    then obtain m0 where m0: "msi_mid p = Some m0" "m0 \<noteq> []"
      by (auto simp add: truthy_def split: option.splits)
    from True Cons.prems have "msi_tracks p \<noteq> None" by simp
    then obtain tm0 where tm0: "objToStrMap (msi_tracks p) = Inr tm0"
      using objToStrMap_Some by blast
    let ?c1 = "c\<lparr>knownStreams := AList.update m0 tm0 (knownStreams c)\<rparr>"
    have step: "add_pub p c = Inr (?c1, [?ev p])"
      using m0 tm0 by (rule add_pub_set)
    from Cons.IH [OF rest, of ?c1 "es @ [?ev p]"] obtain known' where
      run: "pubs_forEach ps ?c1 (es @ [?ev p]) =
              (Inr (), ?c1\<lparr>knownStreams := known'\<rparr>, (es @ [?ev p]) @ map ?ev (filter (\<lambda>p. truthy (msi_mid p)) ps))"
      and U: "\<forall>m. (\<forall>q\<in>set ps. truthy (msi_mid q) \<longrightarrow> msi_mid q \<noteq> Some m) \<longrightarrow> map_of known' m = map_of (knownStreams ?c1) m"
      and L: "\<forall>ps1 p ps2 m. ps = ps1 @ p # ps2 \<and> msi_mid p = Some m \<and> m \<noteq> [] \<and>
                  (\<forall>q\<in>set ps2. msi_mid q \<noteq> Some m) \<longrightarrow>
                  (\<exists>tm. objToStrMap (msi_tracks p) = Inr tm \<and> map_of known' m = Some tm)"
      by blast
    have 1: "pubs_forEach (p # ps) c es =
             (Inr (), c\<lparr>knownStreams := known'\<rparr>, es @ map ?ev (filter (\<lambda>p. truthy (msi_mid p)) (p # ps)))"
      using True step run by simp
    have 2: "\<forall>m. (\<forall>q\<in>set (p # ps). truthy (msi_mid q) \<longrightarrow> msi_mid q \<noteq> Some m) \<longrightarrow>
                  map_of known' m = map_of (knownStreams c) m"
    proof (intro allI impI)
      fix m
      assume h: "\<forall>q\<in>set (p # ps). truthy (msi_mid q) \<longrightarrow> msi_mid q \<noteq> Some m"
      with True m0 have ne: "m0 \<noteq> m" by auto
      from h U have "map_of known' m = map_of (knownStreams ?c1) m" by simp
      also have "\<dots> = map_of (knownStreams c) m"
        using ne by (simp add: AList.update_conv')
      finally show "map_of known' m = map_of (knownStreams c) m" .
    qed
    have 3: "\<forall>ps1 p' ps2 m. p # ps = ps1 @ p' # ps2 \<and> msi_mid p' = Some m \<and> m \<noteq> [] \<and>
                  (\<forall>q\<in>set ps2. msi_mid q \<noteq> Some m) \<longrightarrow>
                  (\<exists>tm. objToStrMap (msi_tracks p') = Inr tm \<and> map_of known' m = Some tm)"
    proof (intro allI impI)
      fix ps1 p' ps2 m
      assume h: "p # ps = ps1 @ p' # ps2 \<and> msi_mid p' = Some m \<and> m \<noteq> [] \<and>
                  (\<forall>q\<in>set ps2. msi_mid q \<noteq> Some m)"
      show "\<exists>tm. objToStrMap (msi_tracks p') = Inr tm \<and> map_of known' m = Some tm"
      proof (cases ps1)
        case Nil
        with h have eq: "p' = p" "ps2 = ps" by simp_all
        with h m0 have mm: "m = m0" by simp
        from h eq have "\<forall>q\<in>set ps. truthy (msi_mid q) \<longrightarrow> msi_mid q \<noteq> Some m" by simp
        with U have "map_of known' m = map_of (knownStreams ?c1) m" by simp
        also have "\<dots> = Some tm0" by (simp add: mm AList.update_conv')
        finally show ?thesis using tm0 eq by simp
      next
        case (Cons a ps1')
        with h have "ps = ps1' @ p' # ps2" by simp
        with h L show ?thesis by blast
      qed
    qed
    from 1 2 3 show ?thesis by blast
  qed
qed

text \<open>
  C1, as the code has it. When a \<^verbatim>\<open>join\<close> request resolves with a \<^verbatim>\<open>pubs\<close> list
  in which every descriptor with a non-empty \<^verbatim>\<open>mid\<close> carries a \<^verbatim>\<open>tracks\<close>
  object, \<^verbatim>\<open>join\<close> resolves; it emits, in the order of the list, one
  \<^verbatim>\<open>stream-add\<close> event \<^verbatim>\<open>(mid, uid, info, description)\<close> for each descriptor with a
  non-empty \<^verbatim>\<open>mid\<close> and none for the others; the registry entry of each such
  \<^verbatim>\<open>mid\<close> is the track map built from the last descriptor of the list that has
  this \<^verbatim>\<open>mid\<close>; and a \<^verbatim>\<open>mid\<close> that no such descriptor has keeps the entry it had,
  or none. Nothing but the registry changes.
\<close>

theorem join_registers_every_pub:
  assumes "\<forall>p\<in>set ps. truthy (msi_mid p) \<longrightarrow> msi_tracks p \<noteq> None"
  shows "\<exists>known'.
           join c r info token (Inr \<lparr>pubs = Some ps\<rparr>) =
             (Inr (), (fst (join_call c r info token))\<lparr>knownStreams := known'\<rparr>,
              snd (join_call c r info token)
              @ map (\<lambda>p. Emit (StreamAdd (msi_mid p) (msi_uid p) (msi_info p) (msi_description p)))
                  (filter (\<lambda>p. truthy (msi_mid p)) ps))
         \<and> (\<forall>ps1 p ps2 m. ps = ps1 @ p # ps2 \<and> msi_mid p = Some m \<and> m \<noteq> [] \<and>
                  (\<forall>q\<in>set ps2. msi_mid q \<noteq> Some m) \<longrightarrow>
                  (\<exists>tm. objToStrMap (msi_tracks p) = Inr tm \<and> map_of known' m = Some tm))
         \<and> (\<forall>m. (\<forall>q\<in>set ps. truthy (msi_mid q) \<longrightarrow> msi_mid q \<noteq> Some m) \<longrightarrow>
                  map_of known' m = map_of (knownStreams c) m)"
proof -
  obtain c1 es1 where call: "join_call c r info token = (c1, es1)"
    by (cases "join_call c r info token")
  have known: "knownStreams c1 = knownStreams c"
    using call by (auto simp add: join_call_def Let_def split: if_splits)
  from pubs_forEach_no_fault [OF assms, of c1 "[]"] obtain known' where
    run: "pubs_forEach ps c1 [] =
            (Inr (), c1\<lparr>knownStreams := known'\<rparr>,
             [] @ map (\<lambda>p. Emit (StreamAdd (msi_mid p) (msi_uid p) (msi_info p) (msi_description p)))
                   (filter (\<lambda>p. truthy (msi_mid p)) ps))"
    and U: "\<forall>m. (\<forall>q\<in>set ps. truthy (msi_mid q) \<longrightarrow> msi_mid q \<noteq> Some m) \<longrightarrow>
                  map_of known' m = map_of (knownStreams c1) m"
    and L: "\<forall>ps1 p ps2 m. ps = ps1 @ p # ps2 \<and> msi_mid p = Some m \<and> m \<noteq> [] \<and>
                  (\<forall>q\<in>set ps2. msi_mid q \<noteq> Some m) \<longrightarrow>
                  (\<exists>tm. objToStrMap (msi_tracks p) = Inr tm \<and> map_of known' m = Some tm)"
    by blast
  have "join c r info token (Inr \<lparr>pubs = Some ps\<rparr>) =
             (Inr (), (fst (join_call c r info token))\<lparr>knownStreams := known'\<rparr>,
              snd (join_call c r info token)
              @ map (\<lambda>p. Emit (StreamAdd (msi_mid p) (msi_uid p) (msi_info p) (msi_description p)))
                  (filter (\<lambda>p. truthy (msi_mid p)) ps))"
    using run by (simp add: join_def join_settle_def call)
  with U L known show ?thesis by auto
qed

theorem join_registers_every_pub_witness:
  "\<exists>known'.
     join (new_Client ''u1'') ''r1'' ''guest'' None
       (Inr \<lparr>pubs = Some [ex_info, ex_info\<lparr>msi_mid := None, msi_uid := ''u3''\<rparr>]\<rparr>) =
       (Inr (), (new_Client ''u1'')\<lparr>rid := Some ''r1'', knownStreams := known'\<rparr>,
        [Request ''join'' [(''rid'', Some ''r1''), (''uid'', Some ''u1''), (''info'', Some ''guest'')],
         Emit (StreamAdd (Some ''m1'') ''u2'' None None)])
     \<and> map_of known' ''m1'' = Some [(''audio'', TrackObj ex_track)]
     \<and> map_of known' ''m2'' = None"
proof -
  let ?ps = "[ex_info, ex_info\<lparr>msi_mid := None, msi_uid := ''u3''\<rparr>]"
  let ?c = "new_Client ''u1''"
  have ok: "\<forall>p\<in>set ?ps. truthy (msi_mid p) \<longrightarrow> msi_tracks p \<noteq> None"
    by (simp add: ex_info_def truthy_def)
  have call: "join_call ?c ''r1'' ''guest'' None =
      (?c\<lparr>rid := Some ''r1''\<rparr>,
       [Request ''join'' [(''rid'', Some ''r1''), (''uid'', Some ''u1''), (''info'', Some ''guest'')]])"
    by (simp add: join_call_def Let_def truthy_def token_field_def new_Client_def)
  have evs: "map (\<lambda>p. Emit (StreamAdd (msi_mid p) (msi_uid p) (msi_info p) (msi_description p)))
                  (filter (\<lambda>p. truthy (msi_mid p)) ?ps) = [Emit (StreamAdd (Some ''m1'') ''u2'' None None)]"
    by (simp add: ex_info_def truthy_def)
  have tracks: "objToStrMap (msi_tracks ex_info) = Inr [(''audio'', TrackObj ex_track)]"
    by (simp add: ex_info_def objToStrMap_def strMap_loop_def)
  have split: "?ps = [] @ ex_info # [ex_info\<lparr>msi_mid := None, msi_uid := ''u3''\<rparr>]
      \<and> msi_mid ex_info = Some ''m1'' \<and> ''m1'' \<noteq> []
      \<and> (\<forall>q\<in>set [ex_info\<lparr>msi_mid := None, msi_uid := ''u3''\<rparr>]. msi_mid q \<noteq> Some ''m1'')"
    by (simp add: ex_info_def)
  have other: "\<forall>q\<in>set ?ps. truthy (msi_mid q) \<longrightarrow> msi_mid q \<noteq> Some ''m2''"
    by (simp add: ex_info_def)
  from join_registers_every_pub [OF ok, of ?c "''r1''" "''guest''" None]
  obtain known' where
    run: "join ?c ''r1'' ''guest'' None (Inr \<lparr>pubs = Some ?ps\<rparr>) =
             (Inr (), (fst (join_call ?c ''r1'' ''guest'' None))\<lparr>knownStreams := known'\<rparr>,
              snd (join_call ?c ''r1'' ''guest'' None)
              @ map (\<lambda>p. Emit (StreamAdd (msi_mid p) (msi_uid p) (msi_info p) (msi_description p)))
                  (filter (\<lambda>p. truthy (msi_mid p)) ?ps))"
    and L: "\<forall>ps1 p ps2 m. ?ps = ps1 @ p # ps2 \<and> msi_mid p = Some m \<and> m \<noteq> [] \<and>
                  (\<forall>q\<in>set ps2. msi_mid q \<noteq> Some m) \<longrightarrow>
                  (\<exists>tm. objToStrMap (msi_tracks p) = Inr tm \<and> map_of known' m = Some tm)"
    and U: "\<forall>m. (\<forall>q\<in>set ?ps. truthy (msi_mid q) \<longrightarrow> msi_mid q \<noteq> Some m) \<longrightarrow>
                  map_of known' m = map_of (knownStreams ?c) m"
    by blast
  from L split have "\<exists>tm. objToStrMap (msi_tracks ex_info) = Inr tm \<and> map_of known' ''m1'' = Some tm"
    by blast
  then have m1: "map_of known' ''m1'' = Some [(''audio'', TrackObj ex_track)]"
    by (simp add: tracks)
  from U other have "map_of known' ''m2'' = map_of (knownStreams ?c) ''m2''"
    by blast
  then have m2: "map_of known' ''m2'' = None"
    by (simp add: new_Client_def)
  from run have "join ?c ''r1'' ''guest'' None (Inr \<lparr>pubs = Some ?ps\<rparr>) =
       (Inr (), ?c\<lparr>rid := Some ''r1'', knownStreams := known'\<rparr>,
        [Request ''join'' [(''rid'', Some ''r1''), (''uid'', Some ''u1''), (''info'', Some ''guest'')],
         Emit (StreamAdd (Some ''m1'') ''u2'' None None)])"
    unfolding call evs by simp
  with m1 m2 show ?thesis by blast
qed

text \<open>
  C1 as stated fails on a descriptor whose \<^verbatim>\<open>mid\<close> is defined and empty (it is skipped:
  no registry entry, no event), and on a descriptor with a \<^verbatim>\<open>mid\<close> and no
  \<^verbatim>\<open>tracks\<close> (\<^verbatim>\<open>join\<close> rejects with a TypeError: no registry entry, no event).
\<close>

theorem join_pub_counterexample:
  "join (new_Client ''u1'') ''r1'' ''guest'' None (Inr \<lparr>pubs = Some [ex_info\<lparr>msi_mid := Some ''''\<rparr>]\<rparr>) =
     (Inr (), (new_Client ''u1'')\<lparr>rid := Some ''r1''\<rparr>,
      [Request ''join'' [(''rid'', Some ''r1''), (''uid'', Some ''u1''), (''info'', Some ''guest'')]])
   \<and> join (new_Client ''u1'') ''r1'' ''guest'' None (Inr \<lparr>pubs = Some [ex_info\<lparr>msi_tracks := None\<rparr>]\<rparr>) =
     (Inl (TypeError ''Cannot convert undefined or null to object''),
      (new_Client ''u1'')\<lparr>rid := Some ''r1''\<rparr>,
      [Request ''join'' [(''rid'', Some ''r1''), (''uid'', Some ''u1''), (''info'', Some ''guest'')]])
   \<and> knownStreams ((new_Client ''u1'')\<lparr>rid := Some ''r1''\<rparr>) = []"
  by (simp add: join_def join_call_def join_settle_def add_pub_def objToStrMap_def Let_def
      truthy_def token_field_def new_Client_def ex_info_def)



text \<open>
  C5, as the code has it. Before its request is settled, \<^verbatim>\<open>join(rid, info, token)\<close> has
  set \<^verbatim>\<open>rid\<close> and, when the token is supplied and not empty, the room token (an
  absent or empty token leaves the room token as it was); the registry is untouched.
  When the request rejects, the part of \<^verbatim>\<open>join\<close> that runs then rethrows the same
  error and changes nothing: \<^verbatim>\<open>rid\<close> and the token stay as the call set them and the
  registry is as it was.
\<close>

theorem join_sets_rid_and_keeps_it_on_rejection:
  "rid (fst (join_call c r info token)) = Some r
   \<and> (truthy token \<longrightarrow> roomToken (fst (join_call c r info token)) = token)
   \<and> (\<not> truthy token \<longrightarrow> roomToken (fst (join_call c r info token)) = roomToken c)
   \<and> knownStreams (fst (join_call c r info token)) = knownStreams c
   \<and> join_settle c' (Inl e) = (Inl e, c', [])
   \<and> join c r info token (Inl e) =
       (Inl e, fst (join_call c r info token), snd (join_call c r info token))"
  by (simp add: join_call_def join_settle_def join_def Let_def)

theorem join_sets_rid_witness:
  "truthy (Some ''secret'')
   \<and> join (new_Client ''u1'') ''r1'' ''guest'' (Some ''secret'') (Inl (Thrown ''rejected'')) =
       (Inl (Thrown ''rejected''),
        (new_Client ''u1'')\<lparr>rid := Some ''r1'', roomToken := Some ''secret''\<rparr>,
        [Request ''join'' [(''rid'', Some ''r1''), (''uid'', Some ''u1''), (''info'', Some ''guest''),
                          (''token'', Some ''secret'')]])
   \<and> \<not> truthy None
   \<and> roomToken (fst (join_call (new_Client ''u1'') ''r1'' ''guest'' None)) = None"
proof -
  have t: "truthy (Some ''secret'')" by (simp add: truthy_def)
  have n: "\<not> truthy None" by (simp add: truthy_def)
  have c: "join_call (new_Client ''u1'') ''r1'' ''guest'' (Some ''secret'') =
             ((new_Client ''u1'')\<lparr>rid := Some ''r1'', roomToken := Some ''secret''\<rparr>,
              [Request ''join'' [(''rid'', Some ''r1''), (''uid'', Some ''u1''), (''info'', Some ''guest''),
                          (''token'', Some ''secret'')]])"
    by (simp add: join_call_def Let_def truthy_def token_field_def new_Client_def)
  have r: "roomToken (new_Client ''u1'') = None" by (simp add: new_Client_def)
  show ?thesis
    using t n r
      join_sets_rid_and_keeps_it_on_rejection
        [of "new_Client ''u1''" "''r1''" "''guest''" "Some ''secret''" _ "Thrown ''rejected''"]
      join_sets_rid_and_keeps_it_on_rejection [of "new_Client ''u1''" "''r1''" "''guest''" None]
    unfolding c by simp
qed

text \<open>
  C5 as stated fails for a token that is supplied and empty: the room token is not
  set to it, the one of an earlier \<^verbatim>\<open>join\<close> stays.
\<close>

theorem join_empty_token_counterexample:
  "roomToken (fst (join_call ((new_Client ''u1'')\<lparr>roomToken := Some ''old''\<rparr>) ''r2'' ''guest'' (Some [])))
     = Some ''old''"
  by (simp add: join_call_def Let_def truthy_def new_Client_def)

section \<open>Track maps\<close>





lemma pubs_forEach_frame:
  "pubs_forEach ps c es = (res, c', es') \<Longrightarrow> c' = c\<lparr>knownStreams := knownStreams c'\<rparr>"
proof (induction ps arbitrary: c es)
  case Nil
  then show ?case by simp
next
  case (Cons p ps)
  show ?case
  proof (cases "add_pub p c")
    case (Inl e)
    with Cons.prems show ?thesis by simp
  next
    case (Inr x)
    obtain c1 es1 where x: "x = (c1, es1)" by (cases x)
    from Inr x have c1: "c1 = c\<lparr>knownStreams := knownStreams c1\<rparr>"
      by (auto simp add: add_pub_def split: option.splits if_splits sum.splits)
    from Cons.prems Inr x have "pubs_forEach ps c1 (es @ es1) = (res, c', es')" by simp
    then have "c' = c1\<lparr>knownStreams := knownStreams c'\<rparr>" by (rule Cons.IH)
    with c1 show ?thesis by (metis Client.update_convs(5) Client.surjective)
  qed
qed

lemma pubs_forEach_fault:
  assumes "\<forall>p\<in>set ps1. truthy (msi_mid p) \<longrightarrow> msi_tracks p \<noteq> None"
    and "truthy (msi_mid d)" and "msi_tracks d = None"
  shows "\<exists>c' es'. pubs_forEach ps1 c es = (Inr (), c', es')
           \<and> pubs_forEach (ps1 @ d # ps2) c es =
               (Inl (TypeError ''Cannot convert undefined or null to object''), c', es')
           \<and> rid c' = rid c"
proof -
  from pubs_forEach_no_fault [OF assms(1), of c es] obtain c' es' where
    run: "pubs_forEach ps1 c es = (Inr (), c', es')" by blast
  from pubs_forEach_frame [OF run] have "rid c' = rid (c\<lparr>knownStreams := knownStreams c'\<rparr>)"
    by simp
  then have frame: "rid c' = rid c" by simp
  have "pubs_forEach (ps1 @ d # ps2) c es = pubs_forEach (d # ps2) c' es'"
    using run by (rule pubs_forEach_append)
  also have "\<dots> = (Inl (TypeError ''Cannot convert undefined or null to object''), c', es')"
    by (simp add: add_pub_fault [OF assms(2,3)])
  finally show ?thesis using run frame by blast
qed

lemma rid_join_call: "rid (fst (join_call c r info token)) = Some r"
  by (simp add: join_call_def Let_def)

text \<open>
  C10, as the code has it. A \<^verbatim>\<open>stream-add\<close> notification with a non-empty \<^verbatim>\<open>mid\<close>
  and no \<^verbatim>\<open>tracks\<close> makes the handler throw the TypeError of \<^verbatim>\<open>Object.keys\<close> before
  the registry is updated and before anything is emitted. A \<^verbatim>\<open>join\<close> response with
  such a descriptor in \<^verbatim>\<open>pubs\<close> makes \<^verbatim>\<open>join\<close> reject with that TypeError although
  the request resolved, with \<^verbatim>\<open>rid\<close> set; the descriptors before the first such one
  are processed as in a \<^verbatim>\<open>join\<close> that has only them, the ones after it are not.
\<close>

theorem undefined_tracks_throw:
  assumes "truthy (msi_mid d)" and "msi_tracks d = None"
  shows "(method' n = ''stream-add'' \<and> data n = d \<longrightarrow>
            onNotification c n =
              (Inl (TypeError ''Cannot convert undefined or null to object''), c, []))
       \<and> ((\<forall>p\<in>set ps1. truthy (msi_mid p) \<longrightarrow> msi_tracks p \<noteq> None) \<longrightarrow>
            (\<exists>c' es. join c r info token (Inr \<lparr>pubs = Some ps1\<rparr>) = (Inr (), c', es)
                  \<and> join c r info token (Inr \<lparr>pubs = Some (ps1 @ d # ps2)\<rparr>) =
                      (Inl (TypeError ''Cannot convert undefined or null to object''), c', es)
                  \<and> rid c' = Some r))
       \<and> (d \<in> set ps \<longrightarrow>
            (\<exists>c' es. join c r info token (Inr \<lparr>pubs = Some ps\<rparr>) =
                      (Inl (TypeError ''Cannot convert undefined or null to object''), c', es)
                  \<and> rid c' = Some r))"
proof (intro conjI impI)
  assume "method' n = ''stream-add'' \<and> data n = d"
  then show "onNotification c n =
      (Inl (TypeError ''Cannot convert undefined or null to object''), c, [])"
    using assms
    by (auto simp add: onNotification_def stream_add_def objToStrMap_def Let_def truthy_def
        split: option.splits)
next
  obtain c1 es1 where call: "join_call c r info token = (c1, es1)"
    by (cases "join_call c r info token")
  have rid1: "rid c1 = Some r" using rid_join_call [of c r info token] call by simp
  {
    fix qs1 qs2 :: "MediaStreamInfo list" and e :: MediaStreamInfo
    assume ok: "\<forall>p\<in>set qs1. truthy (msi_mid p) \<longrightarrow> msi_tracks p \<noteq> None"
      and bad: "truthy (msi_mid e)" "msi_tracks e = None"
    from pubs_forEach_fault [OF ok bad, of c1 "[]" qs2] obtain c' es' where
      a: "pubs_forEach qs1 c1 [] = (Inr (), c', es')"
      and b: "pubs_forEach (qs1 @ e # qs2) c1 [] =
               (Inl (TypeError ''Cannot convert undefined or null to object''), c', es')"
      and f: "rid c' = rid c1" by blast
    have "join c r info token (Inr \<lparr>pubs = Some qs1\<rparr>) = (Inr (), c', es1 @ es')
        \<and> join c r info token (Inr \<lparr>pubs = Some (qs1 @ e # qs2)\<rparr>) =
            (Inl (TypeError ''Cannot convert undefined or null to object''), c', es1 @ es')
        \<and> rid c' = Some r"
      using a b f rid1 by (simp add: join_def join_settle_def call)
    then have "\<exists>c' es. join c r info token (Inr \<lparr>pubs = Some qs1\<rparr>) = (Inr (), c', es)
        \<and> join c r info token (Inr \<lparr>pubs = Some (qs1 @ e # qs2)\<rparr>) =
            (Inl (TypeError ''Cannot convert undefined or null to object''), c', es)
        \<and> rid c' = Some r"
      by blast
  } note first = this
  {
    assume "\<forall>p\<in>set ps1. truthy (msi_mid p) \<longrightarrow> msi_tracks p \<noteq> None"
    then show "\<exists>c' es. join c r info token (Inr \<lparr>pubs = Some ps1\<rparr>) = (Inr (), c', es)
        \<and> join c r info token (Inr \<lparr>pubs = Some (ps1 @ d # ps2)\<rparr>) =
            (Inl (TypeError ''Cannot convert undefined or null to object''), c', es)
        \<and> rid c' = Some r"
      using first [OF _ assms, of ps1 ps2] by simp
  }
  {
    assume "d \<in> set ps"
    with assms have "\<exists>p\<in>set ps. truthy (msi_mid p) \<and> msi_tracks p = None" by blast
    then obtain qs1 e qs2 where ps: "ps = qs1 @ e # qs2"
      and bad: "truthy (msi_mid e) \<and> msi_tracks e = None"
      and ok: "\<forall>p\<in>set qs1. \<not> (truthy (msi_mid p) \<and> msi_tracks p = None)"
      using split_list_first_prop [of ps "\<lambda>p. truthy (msi_mid p) \<and> msi_tracks p = None"] by blast
    from ok have ok': "\<forall>p\<in>set qs1. truthy (msi_mid p) \<longrightarrow> msi_tracks p \<noteq> None" by simp
    from bad have b1: "truthy (msi_mid e)" and b2: "msi_tracks e = None" by simp_all
    from first [OF ok' b1 b2, of qs2] obtain c' es where
      "join c r info token (Inr \<lparr>pubs = Some (qs1 @ e # qs2)\<rparr>) =
            (Inl (TypeError ''Cannot convert undefined or null to object''), c', es)"
      and "rid c' = Some r" by auto
    then show "\<exists>c' es. join c r info token (Inr \<lparr>pubs = Some ps\<rparr>) =
            (Inl (TypeError ''Cannot convert undefined or null to object''), c', es)
        \<and> rid c' = Some r"
      unfolding ps by auto
  }
qed

theorem undefined_tracks_throw_witness:
  "truthy (msi_mid (ex_info\<lparr>msi_tracks := None\<rparr>))
   \<and> msi_tracks (ex_info\<lparr>msi_tracks := None\<rparr>) = None
   \<and> onNotification ex_joined \<lparr>method' = ''stream-add'', data = ex_info\<lparr>msi_tracks := None\<rparr>\<rparr> =
       (Inl (TypeError ''Cannot convert undefined or null to object''), ex_joined, [])
   \<and> (\<exists>c' es.
         join (new_Client ''u1'') ''r1'' ''guest'' None
           (Inr \<lparr>pubs = Some [ex_info\<lparr>msi_mid := Some ''m0''\<rparr>]\<rparr>) = (Inr (), c', es)
       \<and> join (new_Client ''u1'') ''r1'' ''guest'' None
           (Inr \<lparr>pubs = Some ([ex_info\<lparr>msi_mid := Some ''m0''\<rparr>] @ ex_info\<lparr>msi_tracks := None\<rparr>
                                # [ex_info\<lparr>msi_mid := Some ''m2''\<rparr>])\<rparr>) =
           (Inl (TypeError ''Cannot convert undefined or null to object''), c', es)
       \<and> rid c' = Some ''r1'')
   \<and> (\<exists>c' es.
         join (new_Client ''u1'') ''r1'' ''guest'' None
           (Inr \<lparr>pubs = Some [ex_info, ex_info\<lparr>msi_tracks := None\<rparr>]\<rparr>) =
           (Inl (TypeError ''Cannot convert undefined or null to object''), c', es)
       \<and> rid c' = Some ''r1'')"
proof -
  let ?d = "ex_info\<lparr>msi_tracks := None\<rparr>"
  let ?n = "\<lparr>method' = ''stream-add'', data = ?d\<rparr>"
  let ?ps1 = "[ex_info\<lparr>msi_mid := Some ''m0''\<rparr>]"
  have a: "truthy (msi_mid ?d)" by (simp add: ex_info_def truthy_def)
  have b: "msi_tracks ?d = None" by simp
  have n: "method' ?n = ''stream-add'' \<and> data ?n = ?d" by simp
  have ok: "\<forall>p\<in>set ?ps1. truthy (msi_mid p) \<longrightarrow> msi_tracks p \<noteq> None"
    by (simp add: ex_info_def)
  from undefined_tracks_throw [OF a b, where n = ?n and c = ex_joined] n
  have 1: "onNotification ex_joined ?n =
       (Inl (TypeError ''Cannot convert undefined or null to object''), ex_joined, [])"
    by blast
  from undefined_tracks_throw [OF a b, where c = "new_Client ''u1''" and ?ps1.0 = ?ps1
      and r = "''r1''" and info = "''guest''" and token = None
      and ?ps2.0 = "[ex_info\<lparr>msi_mid := Some ''m2''\<rparr>]"] ok
  have 2: "\<exists>c' es.
         join (new_Client ''u1'') ''r1'' ''guest'' None (Inr \<lparr>pubs = Some ?ps1\<rparr>) = (Inr (), c', es)
       \<and> join (new_Client ''u1'') ''r1'' ''guest'' None
           (Inr \<lparr>pubs = Some (?ps1 @ ?d # [ex_info\<lparr>msi_mid := Some ''m2''\<rparr>])\<rparr>) =
           (Inl (TypeError ''Cannot convert undefined or null to object''), c', es)
       \<and> rid c' = Some ''r1''"
    by blast
  have mem: "?d \<in> set [ex_info, ?d]" by simp
  from undefined_tracks_throw [OF a b, where c = "new_Client ''u1''" and ps = "[ex_info, ?d]"
      and r = "''r1''" and info = "''guest''" and token = None] mem
  have 3: "\<exists>c' es.
         join (new_Client ''u1'') ''r1'' ''guest'' None (Inr \<lparr>pubs = Some [ex_info, ?d]\<rparr>) =
           (Inl (TypeError ''Cannot convert undefined or null to object''), c', es)
       \<and> rid c' = Some ''r1''"
    by blast
  from a b 1 2 3 show ?thesis by blast
qed

text \<open>
  C10 as stated fails for a \<^verbatim>\<open>mid\<close> that is defined and empty: with no
  \<^verbatim>\<open>tracks\<close>, the handler does not throw and emits \<^verbatim>\<open>stream-add\<close>, and
  \<^verbatim>\<open>join\<close> resolves.
\<close>

theorem undefined_tracks_empty_mid_counterexample:
  "onNotification ex_joined
     \<lparr>method' = ''stream-add'', data = ex_info\<lparr>msi_mid := Some '''', msi_tracks := None\<rparr>\<rparr> =
     (Inr (), ex_joined, [Emit (StreamAdd (Some '''') ''u2'' None None)])
   \<and> join (new_Client ''u1'') ''r1'' ''guest'' None
       (Inr \<lparr>pubs = Some [ex_info\<lparr>msi_mid := Some '''', msi_tracks := None\<rparr>]\<rparr>) =
     (Inr (), (new_Client ''u1'')\<lparr>rid := Some ''r1''\<rparr>,
      [Request ''join'' [(''rid'', Some ''r1''), (''uid'', Some ''u1''), (''info'', Some ''guest'')]])"
  by (simp add: onNotification_def stream_add_def join_def join_call_def join_settle_def add_pub_def
      Let_def truthy_def token_field_def new_Client_def ex_info_def)

section \<open>subscribe\<close>














section \<open>close\<close>





section \<open>Connectivity aggregation\<close>

lemma state_string_nonempty: "state_string st \<noteq> []"
  by (cases st) simp_all

lemma ice_forEach_conv:
  "ice_forEach ss b \<longleftrightarrow>
     b \<and> (\<forall>s\<in>set ss. \<exists>state. getIceConnectionState s = Some state \<and>
            state \<notin> {''closed'', ''disconnected'', ''failed''})"
proof (induction ss arbitrary: b)
  case Nil
  then show ?case by simp
next
  case (Cons s ss)
  show ?case
  proof (cases "iceConnectionState s")
    case None
    then show ?thesis using Cons.IH by (simp add: getIceConnectionState_def)
  next
    case (Some st)
    then show ?thesis using Cons.IH
      by (auto simp add: getIceConnectionState_def state_string_nonempty failedStatuses_def)
  qed
qed

text \<open>
  C7. \<^verbatim>\<open>streamsConnected()\<close> is true exactly when every local handle and every remote
  handle reports an ICE connection state that is present and is none of
  \<^verbatim>\<open>closed\<close>, \<^verbatim>\<open>disconnected\<close>, \<^verbatim>\<open>failed\<close>; it is true when there are no handles;
  and \<^verbatim>\<open>isStreamIceConnected(local)\<close> is false as soon as one handle of the selected
  set reports a missing state or one of those three.
\<close>

theorem streamsConnected_iff_every_handle_connected:
  "(streamsConnected c \<longleftrightarrow>
      (\<forall>s \<in> set (localStreams c) \<union> set (Object_values (streams c)).
         \<exists>state. getIceConnectionState s = Some state \<and>
           state \<notin> {''closed'', ''disconnected'', ''failed''}))
   \<and> (localStreams c = [] \<and> streams c = [] \<longrightarrow> streamsConnected c)
   \<and> ((\<exists>s \<in> set (if local then localStreams c else Object_values (streams c)).
          getIceConnectionState s = None \<or>
          getIceConnectionState s \<in> {Some ''closed'', Some ''disconnected'', Some ''failed''})
        \<longrightarrow> \<not> isStreamIceConnected c local)"
proof (intro conjI)
  show "streamsConnected c \<longleftrightarrow>
      (\<forall>s \<in> set (localStreams c) \<union> set (Object_values (streams c)).
         \<exists>state. getIceConnectionState s = Some state \<and>
           state \<notin> {''closed'', ''disconnected'', ''failed''})"
    by (simp add: streamsConnected_def isStreamIceConnected_def ice_forEach_conv ball_Un)
  show "localStreams c = [] \<and> streams c = [] \<longrightarrow> streamsConnected c"
    by (simp add: streamsConnected_def isStreamIceConnected_def Object_values_def)
  show "(\<exists>s \<in> set (if local then localStreams c else Object_values (streams c)).
          getIceConnectionState s = None \<or>
          getIceConnectionState s \<in> {Some ''closed'', Some ''disconnected'', Some ''failed''})
        \<longrightarrow> \<not> isStreamIceConnected c local"
    unfolding isStreamIceConnected_def ice_forEach_conv by fastforce
qed

theorem streamsConnected_witness:
  "streamsConnected ex_subscribed
   \<and> streamsConnected (new_Client ''u1'')
   \<and> \<not> isStreamIceConnected
         (ex_subscribed\<lparr>streams := [(''m1'', ex_remote\<lparr>iceConnectionState := None\<rparr>)]\<rparr>) False
   \<and> \<not> streamsConnected
         (ex_subscribed\<lparr>localStreams := [ex_local\<lparr>iceConnectionState := Some IceFailed\<rparr>]\<rparr>)"
proof -
  let ?bad = "ex_subscribed\<lparr>streams := [(''m1'', ex_remote\<lparr>iceConnectionState := None\<rparr>)]\<rparr>"
  let ?failed = "ex_subscribed\<lparr>localStreams := [ex_local\<lparr>iceConnectionState := Some IceFailed\<rparr>]\<rparr>"
  have ok: "\<forall>s \<in> set (localStreams ex_subscribed) \<union> set (Object_values (streams ex_subscribed)).
         \<exists>state. getIceConnectionState s = Some state \<and>
           state \<notin> {''closed'', ''disconnected'', ''failed''}"
    by (simp add: ex_subscribed_def ex_joined_def ex_local_def ex_remote_def Object_values_def
        getIceConnectionState_def)
  have empty: "localStreams (new_Client ''u1'') = [] \<and> streams (new_Client ''u1'') = []"
    by (simp add: new_Client_def)
  have missing: "\<exists>s \<in> set (if False then localStreams ?bad else Object_values (streams ?bad)).
          getIceConnectionState s = None \<or>
          getIceConnectionState s \<in> {Some ''closed'', Some ''disconnected'', Some ''failed''}"
    by (simp add: Object_values_def getIceConnectionState_def)
  have failed: "\<not> (\<forall>s \<in> set (localStreams ?failed) \<union> set (Object_values (streams ?failed)).
         \<exists>state. getIceConnectionState s = Some state \<and>
           state \<notin> {''closed'', ''disconnected'', ''failed''})"
    by (simp add: getIceConnectionState_def)
  show ?thesis
    using ok empty missing failed
      streamsConnected_iff_every_handle_connected [of ex_subscribed]
      streamsConnected_iff_every_handle_connected [of "new_Client ''u1''"]
      streamsConnected_iff_every_handle_connected [of ?bad False]
      streamsConnected_iff_every_handle_connected [of ?failed]
    by blast
qed

section \<open>The notification handler\<close>



text \<open>
  C4, as the code has it. A \<^verbatim>\<open>stream-remove\<close> notification whose \<^verbatim>\<open>mid\<close> is a key
  of the subscribed-stream map emits \<^verbatim>\<open>stream-remove\<close> with the subscribed handle and
  the notification's \<^verbatim>\<open>uid\<close> and calls \<^verbatim>\<open>close\<close> on that handle. When that call
  returns, the key is deleted from the subscribed-stream map and nothing else changes:
  the registry, the local-stream list, \<^verbatim>\<open>rid\<close>, the token and the other
  subscriptions are as they were. When the call throws, the exception leaves the
  handler and the whole state is as it was.
\<close>

theorem stream_remove_of_subscribed_mid:
  assumes "method' n = ''stream-remove''"
    and "map_of (streams c) (prop_key (msi_mid (data n))) = Some h"
  shows "(closeThrows h = None \<longrightarrow>
            onNotification c n =
              (Inr (), c\<lparr>streams := AList.delete (prop_key (msi_mid (data n))) (streams c)\<rparr>,
               [Emit (StreamRemove (Some h) (msi_uid (data n))), Close h]))
       \<and> (\<forall>e. closeThrows h = Some e \<longrightarrow>
            onNotification c n =
              (Inl e, c, [Emit (StreamRemove (Some h) (msi_uid (data n))), Close h]))
       \<and> map_of (AList.delete (prop_key (msi_mid (data n))) (streams c))
            (prop_key (msi_mid (data n))) = None
       \<and> (\<forall>k. k \<noteq> prop_key (msi_mid (data n)) \<longrightarrow>
            map_of (AList.delete (prop_key (msi_mid (data n))) (streams c)) k = map_of (streams c) k)
       \<and> (\<forall>c'. c' = fst (snd (onNotification c n)) \<longrightarrow>
            knownStreams c' = knownStreams c \<and> localStreams c' = localStreams c \<and>
            rid c' = rid c \<and> roomToken c' = roomToken c \<and> uid c' = uid c \<and>
            listeners c' = listeners c \<and> dispatch_closed c' = dispatch_closed c)"
  using assms
  by (cases "closeThrows h") (simp_all add: onNotification_def stream_remove_def Let_def AList.delete_conv')


theorem stream_remove_of_subscribed_mid_witness:
  "method' \<lparr>method' = ''stream-remove'', data = ex_info\<rparr> = ''stream-remove''
   \<and> map_of (streams ex_subscribed) ''m1'' = Some ex_remote
   \<and> closeThrows ex_remote = None
   \<and> onNotification ex_subscribed \<lparr>method' = ''stream-remove'', data = ex_info\<rparr> =
       (Inr (), ex_subscribed\<lparr>streams := []\<rparr>, [Emit (StreamRemove (Some ex_remote) ''u2''), Close ex_remote])
   \<and> map_of (knownStreams (ex_subscribed\<lparr>streams := []\<rparr>)) ''m1'' = Some [(''audio'', TrackObj ex_track)]"
proof -
  let ?n = "\<lparr>method' = ''stream-remove'', data = ex_info\<rparr>"
  have a: "method' ?n = ''stream-remove''" by simp
  have k: "prop_key (msi_mid (data ?n)) = ''m1''"
    by (simp add: ex_info_def prop_key_def)
  have b: "map_of (streams ex_subscribed) (prop_key (msi_mid (data ?n))) = Some ex_remote"
    unfolding k by (simp add: ex_subscribed_def)
  have c: "closeThrows ex_remote = None"
    by (simp add: ex_remote_def)
  have d: "AList.delete ''m1'' (streams ex_subscribed) = []"
    by (simp add: ex_subscribed_def)
  have u: "msi_uid (data ?n) = ''u2''"
    by (simp add: ex_info_def)
  have r: "map_of (knownStreams (ex_subscribed\<lparr>streams := []\<rparr>)) ''m1'' = Some [(''audio'', TrackObj ex_track)]"
    by (simp add: ex_subscribed_def ex_joined_def)
  from stream_remove_of_subscribed_mid [OF a b] c
  have "onNotification ex_subscribed ?n =
          (Inr (), ex_subscribed\<lparr>streams := AList.delete (prop_key (msi_mid (data ?n))) (streams ex_subscribed)\<rparr>,
           [Emit (StreamRemove (Some ex_remote) (msi_uid (data ?n))), Close ex_remote])"
    by blast
  then have "onNotification ex_subscribed ?n =
          (Inr (), ex_subscribed\<lparr>streams := []\<rparr>, [Emit (StreamRemove (Some ex_remote) ''u2''), Close ex_remote])"
    unfolding k u d .
  with a b c r show ?thesis unfolding k by simp
qed

text \<open>
  C4 as stated fails when \<^verbatim>\<open>close()\<close> of the subscribed handle throws: the event is
  emitted and \<^verbatim>\<open>close\<close> is called, but the \<^verbatim>\<open>delete\<close> after it is not reached and
  the key stays in the subscribed-stream map.
\<close>

theorem stream_remove_close_throws_counterexample:
  "map_of (streams (ex_subscribed\<lparr>streams := [(''m1'', ex_broken)]\<rparr>)) ''m1'' = Some ex_broken
   \<and> onNotification (ex_subscribed\<lparr>streams := [(''m1'', ex_broken)]\<rparr>)
        \<lparr>method' = ''stream-remove'', data = ex_info\<rparr> =
       (Inl (Thrown ''Stream is not open.''), ex_subscribed\<lparr>streams := [(''m1'', ex_broken)]\<rparr>,
        [Emit (StreamRemove (Some ex_broken) ''u2''), Close ex_broken])"
  by (simp add: onNotification_def stream_remove_def Let_def prop_key_def ex_info_def ex_broken_def)

text \<open>
  C3, the second half, at a \<^verbatim>\<open>stream-add\<close> notification without \<^verbatim>\<open>mid\<close>: the
  registry is not touched, and the handler does emit \<^verbatim>\<open>stream-add\<close>, with an
  undefined \<^verbatim>\<open>mid\<close> (line 249 is outside the \<^verbatim>\<open>if\<close> of line 245; in
  \<^verbatim>\<open>join\<close>, line 129, the emission is inside it).
\<close>

theorem stream_add_without_mid_emits:
  "onNotification ex_joined \<lparr>method' = ''stream-add'', data = ex_info\<lparr>msi_mid := None\<rparr>\<rparr> =
     (Inr (), ex_joined, [Emit (StreamAdd None ''u2'' None None)])"
  by (simp add: onNotification_def stream_add_def Let_def ex_info_def)

end
